theory Spec2Isabelle
  imports Complex_Main "HOL-Library.Word"
begin

unbundle bit_operations_syntax

section \<open>Basic types of game_engine.c\<close>

type_synonym uint32_t = "32 word"

text \<open>Pointers (function pointers, opaque handles, \<open>void*\<close>) are addresses; \<open>NULL\<close> is 0.\<close>

type_synonym ptr = nat

definition NULL :: ptr where
  "NULL = 0"

text \<open>
  The C type \<open>float\<close>. Finite values are kept as reals (rounding to 24 bits of
  mantissa, overflow and the sign of zero are not modelled); the infinities and NaN are
  kept, since the program divides by a value that can be zero.
\<close>

datatype cfloat = Fin real | PInf | NInf | NaN

text \<open>
  Division of two floats with the special cases of IEEE 754 (no trap on a zero divisor).
  The quotient of two finite values is the exact real quotient: the rounding of the
  result, overflow to infinity, underflow and the sign of zero are left out.
\<close>

fun fdiv :: "cfloat \<Rightarrow> cfloat \<Rightarrow> cfloat" where
  "fdiv NaN _ = NaN"
| "fdiv _ NaN = NaN"
| "fdiv (Fin a) (Fin b) =
     (if b \<noteq> 0 then Fin (a / b)
      else if a = 0 then NaN
      else if 0 < a then PInf else NInf)"
| "fdiv (Fin a) PInf = Fin 0"
| "fdiv (Fin a) NInf = Fin 0"
| "fdiv PInf (Fin b) = (if 0 \<le> b then PInf else NInf)"
| "fdiv NInf (Fin b) = (if 0 \<le> b then NInf else PInf)"
| "fdiv PInf PInf = NaN"
| "fdiv PInf NInf = NaN"
| "fdiv NInf PInf = NaN"
| "fdiv NInf NInf = NaN"

text \<open>
  The conversion \<open>(float)x\<close> of a \<open>uint32_t\<close>, as the exact value of the word: the
  rounding of values above \<open>2^24\<close> is left out. Zero converts to zero and a non-zero word
  to a positive value, as in C.
\<close>

definition float_of_uint32 :: "uint32_t \<Rightarrow> cfloat" where
  "float_of_uint32 x = Fin (real (unat x))"

section \<open>Settings and engine\<close>

record GameEngineSettings =
  fps :: cfloat
  show_fps :: bool
  callback :: ptr
  user_context :: ptr \<comment> \<open>the field \<open>context\<close> of the source\<close>

definition game_engine_settings_init :: GameEngineSettings where
  "game_engine_settings_init =
     \<lparr>fps = Fin 60, show_fps = False, callback = NULL, user_context = NULL\<rparr>"

record GameEngine =
  gui :: ptr
  input_pubsub :: ptr
  thread_id :: ptr
  settings :: GameEngineSettings

record RunningGameEngine =
  engine :: GameEngine
  fps :: cfloat

text \<open>The thread flags of the loop, and the error bit of the firmware's flag word.\<close>

definition GameThreadFlagUpdate :: uint32_t where
  "GameThreadFlagUpdate = push_bit 0 1"

definition GameThreadFlagStop :: uint32_t where
  "GameThreadFlagStop = push_bit 1 1"

definition GameThreadFlagMask :: uint32_t where
  "GameThreadFlagMask = GameThreadFlagUpdate OR GameThreadFlagStop"

definition FuriFlagError :: uint32_t where
  "FuriFlagError = 0x80000000"

text \<open>A failed \<open>furi_check\<close> crashes the firmware.\<close>

datatype abort = FuriCheckFailed

text \<open>
  What the firmware hands out in \<open>game_engine_alloc\<close>: the two records opened and the
  id of the calling thread.
\<close>

record furi_env =
  record_gui :: ptr
  record_input_events :: ptr
  current_thread_id :: ptr

definition game_engine_alloc :: "furi_env \<Rightarrow> GameEngineSettings \<Rightarrow> abort + GameEngine" where
  "game_engine_alloc env s =
     (if \<not> (callback s \<noteq> NULL) then Inl FuriCheckFailed
      else Inr \<lparr>gui = record_gui env,
                input_pubsub = record_input_events env,
                thread_id = current_thread_id env,
                settings = s\<rparr>)"

section \<open>Input events\<close>

text \<open>
  Modelled from the spec: the enum \<open>GameKey\<close> of game_engine.h, which is not among the
  sources. The shared accumulator has one bit per logical key, set on key-down and
  cleared on key-up; the six keys take the bits 0 to 5 in the order of the table below.
\<close>

definition GameKeyUp :: uint32_t where "GameKeyUp = push_bit 0 1"
definition GameKeyDown :: uint32_t where "GameKeyDown = push_bit 1 1"
definition GameKeyRight :: uint32_t where "GameKeyRight = push_bit 2 1"
definition GameKeyLeft :: uint32_t where "GameKeyLeft = push_bit 3 1"
definition GameKeyOk :: uint32_t where "GameKeyOk = push_bit 4 1"
definition GameKeyBack :: uint32_t where "GameKeyBack = push_bit 5 1"

text \<open>
  Modelled from the spec: the raw key codes \<open>InputKey\<close> and the transition types
  \<open>InputType\<close> of the firmware's input service, which index the fixed logical-key table.
\<close>

definition InputKeyUp :: nat where "InputKeyUp = 0"
definition InputKeyDown :: nat where "InputKeyDown = 1"
definition InputKeyRight :: nat where "InputKeyRight = 2"
definition InputKeyLeft :: nat where "InputKeyLeft = 3"
definition InputKeyOk :: nat where "InputKeyOk = 4"
definition InputKeyBack :: nat where "InputKeyBack = 5"

datatype InputType =
  InputTypePress | InputTypeRelease | InputTypeShort | InputTypeLong | InputTypeRepeat

record InputEvent =
  key :: nat
  type :: InputType

text \<open>The table \<open>keys[]\<close>, written with designated initialisers in the source.\<close>

definition keys :: "uint32_t list" where
  "keys = (replicate 6 0)
     [InputKeyUp := GameKeyUp,
      InputKeyDown := GameKeyDown,
      InputKeyRight := GameKeyRight,
      InputKeyLeft := GameKeyLeft,
      InputKeyOk := GameKeyOk,
      InputKeyBack := GameKeyBack]"

definition keys_count :: nat where
  "keys_count = length keys"

text \<open>
  \<open>input_events_callback\<close>: the accumulator \<open>*input_state\<close> is passed in and returned.
\<close>

definition input_events_callback :: "InputEvent \<Rightarrow> uint32_t \<Rightarrow> uint32_t" where
  "input_events_callback event input_state =
     (if key event < keys_count then
        (case type event of
           InputTypePress \<Rightarrow> input_state OR (keys ! key event)
         | InputTypeRelease \<Rightarrow> input_state AND NOT (keys ! key event)
         | _ \<Rightarrow> input_state)
      else input_state)"

section \<open>The loop\<close>

record InputState =
  held :: uint32_t
  pressed :: uint32_t
  released :: uint32_t

text \<open>The calls the loop makes to its collaborators, in order.\<close>

datatype event =
    GuiDirectDrawAcquire
  | PubsubSubscribe
  | ClockTimerStart cfloat
  | CanvasReset
  | Callback RunningGameEngine InputState ptr
  | CanvasSetColorXOR
  | CanvasPrintf cfloat
  | CanvasCommit
  | ClockTimerStop
  | GuiDirectDrawRelease
  | PubsubUnsubscribe

text \<open>The local variables of \<open>game_engine_run\<close>, and the calls made so far.\<close>

record loop_state =
  run :: RunningGameEngine
  input_state :: uint32_t
  input_prev_state :: uint32_t
  time_start :: uint32_t
  trace :: "event list"

text \<open>
  What reaches the loop from outside: an input event delivered to the subscription, or
  a return of \<open>furi_thread_flags_wait\<close> with its flags, together with the value that
  \<open>DWT->CYCCNT\<close> has at that moment.
\<close>

datatype stimulus = Input InputEvent | Wake uint32_t uint32_t

datatype outcome = Exited | Aborted abort | Blocked

text \<open>Line 132: the subtraction of two \<open>uint32_t\<close> readings.\<close>

definition time_delta_of :: "uint32_t \<Rightarrow> uint32_t \<Rightarrow> uint32_t" where
  "time_delta_of time_start' time_end = time_end - time_start'"

text \<open>The body of \<open>if(flags & GameThreadFlagUpdate)\<close>; \<open>clock\<close> is \<open>SystemCoreClock\<close>.\<close>

definition frame_update :: "uint32_t \<Rightarrow> uint32_t \<Rightarrow> loop_state \<Rightarrow> loop_state" where
  "frame_update clock time_end st =
     (let time_delta = time_delta_of (time_start st) time_end;
          input_current_state = input_state st;
          input = \<lparr>held = input_current_state,
                   pressed = input_current_state AND NOT (input_prev_state st),
                   released = NOT input_current_state AND input_prev_state st\<rparr>;
          run' = (run st)\<lparr>fps := fdiv (float_of_uint32 clock) (float_of_uint32 time_delta)\<rparr>;
          cfg = settings (engine run')
      in st\<lparr>run := run',
             input_prev_state := input_current_state,
             time_start := time_end,
             trace := trace st
               @ [CanvasReset, Callback run' input (user_context cfg)]
               @ (if show_fps cfg then [CanvasSetColorXOR, CanvasPrintf (fps run')] else [])
               @ [CanvasCommit]\<rparr>)"

text \<open>
  The \<open>while(true)\<close> loop. Each iteration blocks in \<open>furi_thread_flags_wait\<close>; when no
  further wake-up comes the loop stays blocked.
\<close>

fun game_loop :: "uint32_t \<Rightarrow> loop_state \<Rightarrow> stimulus list \<Rightarrow> outcome \<times> loop_state" where
  "game_loop clock st [] = (Blocked, st)"
| "game_loop clock st (Input ev # rest) =
     game_loop clock (st\<lparr>input_state := input_events_callback ev (input_state st)\<rparr>) rest"
| "game_loop clock st (Wake flags cyccnt # rest) =
     (if \<not> (flags AND FuriFlagError = 0) then (Aborted FuriCheckFailed, st)
      else
        let st' = (if flags AND GameThreadFlagUpdate \<noteq> 0
                   then frame_update clock cyccnt st else st)
        in if flags AND GameThreadFlagStop \<noteq> 0 then (Exited, st')
           else game_loop clock st' rest)"

text \<open>The state on entry to the loop; \<open>cyccnt\<close> is the first reading of the cycle counter.\<close>

definition run_init :: "GameEngine \<Rightarrow> uint32_t \<Rightarrow> loop_state" where
  "run_init e cyccnt =
     \<lparr>run = \<lparr>engine = e, fps = Fin 0\<rparr>,
      input_state = 0,
      input_prev_state = 0,
      time_start = cyccnt,
      trace = [GuiDirectDrawAcquire, PubsubSubscribe,
               ClockTimerStart (GameEngineSettings.fps (settings e))]\<rparr>"

definition game_engine_run ::
  "uint32_t \<Rightarrow> GameEngine \<Rightarrow> uint32_t \<Rightarrow> stimulus list \<Rightarrow> outcome \<times> event list" where
  "game_engine_run clock e cyccnt stimuli =
     (case game_loop clock (run_init e cyccnt) stimuli of
        (Exited, st) \<Rightarrow>
          (Exited, trace st @ [ClockTimerStop, GuiDirectDrawRelease, PubsubUnsubscribe])
      | (out, st) \<Rightarrow> (out, trace st))"

section \<open>Operations on the running engine\<close>

definition running_game_engine_get_delta_time :: "RunningGameEngine \<Rightarrow> cfloat" where
  "running_game_engine_get_delta_time r = fdiv (Fin 1) (fps r)"

definition running_game_engine_get_delta_frames :: "RunningGameEngine \<Rightarrow> cfloat" where
  "running_game_engine_get_delta_frames r =
     fdiv (fps r) (GameEngineSettings.fps (settings (engine r)))"

section \<open>Reading a trace\<close>

text \<open>The handles and input states the client callback was called with.\<close>

fun callback_runs :: "event list \<Rightarrow> RunningGameEngine list" where
  "callback_runs [] = []"
| "callback_runs (Callback r i c # es) = r # callback_runs es"
| "callback_runs (_ # es) = callback_runs es"

fun callback_inputs :: "event list \<Rightarrow> InputState list" where
  "callback_inputs [] = []"
| "callback_inputs (Callback r i c # es) = i # callback_inputs es"
| "callback_inputs (_ # es) = callback_inputs es"

section \<open>The history seen from outside the loop\<close>

text \<open>
  The shared accumulator after a sequence of stimuli: every input event delivered to the
  subscription runs \<open>input_events_callback\<close> on it; wake-ups of the loop do not touch it.
\<close>

fun accumulator_after :: "uint32_t \<Rightarrow> stimulus list \<Rightarrow> uint32_t" where
  "accumulator_after a [] = a"
| "accumulator_after a (Input ev # rest) = accumulator_after (input_events_callback ev a) rest"
| "accumulator_after a (Wake flags cyccnt # rest) = accumulator_after a rest"

text \<open>
  The reading of the cycle counter taken at the most recent wake-up that carried the
  Update flag, or the reading \<open>c\<close> taken on entry when there was none.
\<close>

fun previous_reading :: "uint32_t \<Rightarrow> stimulus list \<Rightarrow> uint32_t" where
  "previous_reading c [] = c"
| "previous_reading c (Input ev # rest) = previous_reading c rest"
| "previous_reading c (Wake flags cyccnt # rest) =
     previous_reading (if flags AND GameThreadFlagUpdate \<noteq> 0 then cyccnt else c) rest"

text \<open>
  The edge detection in the words of the specification: from the previous snapshot and
  the snapshots read in successive frames, \<open>pressed = current_held & ~previous_held\<close>,
  \<open>released = ~current_held & previous_held\<close>, and \<open>current_held\<close> is the previous
  snapshot of the next frame.
\<close>

fun spec_input_states :: "uint32_t \<Rightarrow> uint32_t list \<Rightarrow> InputState list" where
  "spec_input_states previous_held [] = []"
| "spec_input_states previous_held (current_held # rest) =
     \<lparr>held = current_held,
      pressed = current_held AND NOT previous_held,
      released = NOT current_held AND previous_held\<rparr>
     # spec_input_states current_held rest"

section \<open>Concrete values used in the examples\<close>

text \<open>The test \<open>isfinite\<close> of the C library.\<close>

fun isfinite :: "cfloat \<Rightarrow> bool" where
  "isfinite (Fin x) = True"
| "isfinite PInf = False"
| "isfinite NInf = False"
| "isfinite NaN = False"

text \<open>
  An engine as a client sets it up: the default settings (60 frames per second, no
  overlay) with a callback filled in, on a device clocked at 64 MHz.
\<close>

definition demo_settings :: GameEngineSettings where
  "demo_settings = game_engine_settings_init\<lparr>callback := 4096\<rparr>"

definition demo_env :: furi_env where
  "demo_env = \<lparr>record_gui = 16, record_input_events = 32, current_thread_id = 48\<rparr>"

definition demo_engine :: GameEngine where
  "demo_engine =
     \<lparr>gui = 16, input_pubsub = 32, thread_id = 48, settings = demo_settings\<rparr>"

definition demo_clock :: uint32_t where
  "demo_clock = 64000000"

section \<open>Facts about one frame\<close>

lemmas demo_eval =
  game_engine_run_def run_init_def frame_update_def Let_def
  GameThreadFlagUpdate_def GameThreadFlagStop_def FuriFlagError_def
  time_delta_of_def float_of_uint32_def demo_clock_def

lemma callback_inputs_append:
  "callback_inputs (xs @ ys) = callback_inputs xs @ callback_inputs ys"
  by (induction xs rule: callback_inputs.induct) simp_all

lemma callback_runs_append:
  "callback_runs (xs @ ys) = callback_runs xs @ callback_runs ys"
  by (induction xs rule: callback_runs.induct) simp_all

lemma trace_frame_update:
  "trace (frame_update clock now st) =
     trace st
     @ [CanvasReset,
        Callback (run (frame_update clock now st))
          \<lparr>held = input_state st,
            pressed = input_state st AND NOT (input_prev_state st),
            released = NOT (input_state st) AND input_prev_state st\<rparr>
          (user_context (settings (engine (run st))))]
     @ (if show_fps (settings (engine (run st)))
        then [CanvasSetColorXOR, CanvasPrintf (fps (run (frame_update clock now st)))]
        else [])
     @ [CanvasCommit]"
  by (simp add: frame_update_def Let_def)

lemma callback_inputs_frame_update:
  "callback_inputs (trace (frame_update clock now st)) =
     callback_inputs (trace st) @
       [\<lparr>held = input_state st,
         pressed = input_state st AND NOT (input_prev_state st),
         released = NOT (input_state st) AND input_prev_state st\<rparr>]"
  by (simp add: frame_update_def Let_def callback_inputs_append)

lemma callback_runs_frame_update:
  "callback_runs (trace (frame_update clock now st)) =
     callback_runs (trace st) @ [run (frame_update clock now st)]"
  by (simp add: frame_update_def Let_def callback_runs_append)

lemma input_prev_state_frame_update:
  "input_prev_state (frame_update clock now st) = input_state st"
  by (simp add: frame_update_def Let_def)

lemma fps_frame_update:
  "fps (run (frame_update clock now st)) =
     fdiv (float_of_uint32 clock) (float_of_uint32 (time_delta_of (time_start st) now))"
  by (simp add: frame_update_def Let_def)

lemma time_start_frame_update:
  "time_start (frame_update clock now st) = now"
  by (simp add: frame_update_def Let_def)

lemma engine_frame_update:
  "engine (run (frame_update clock now st)) = engine (run st)"
  by (simp add: frame_update_def Let_def)

lemma pressed_released_disjoint:
  "((cur :: uint32_t) AND NOT prev) AND (NOT cur AND prev) = 0"
  by (simp add: bit_eq_iff bit_simps)

subsection \<open>The cycle counter\<close>

lemma unat_time_delta_of:
  assumes "S \<le> N" and "N - S < 2 ^ 32"
  shows "unat (time_delta_of (word_of_nat S) (word_of_nat N)) = N - S"
proof -
  have "(word_of_nat N :: uint32_t) - word_of_nat S = word_of_nat (N - S)"
    using assms(1) by (simp add: of_nat_diff)
  then show ?thesis
    using assms(2) by (simp add: time_delta_of_def unat_of_nat)
qed

lemma wrap_sub_nat:
  fixes a b M :: nat
  assumes "a < M" and "b < M"
  shows "(if a \<le> b then b - a else b + M - a) = (M + b - a) mod M"
proof (cases "a \<le> b")
  case True
  then have "M + b - a = (b - a) + M" by simp
  then have "(M + b - a) mod M = (b - a) mod M" by (simp only: mod_add_self2)
  also have "\<dots> = b - a" using assms(2) by simp
  finally show ?thesis using True by simp
next
  case False
  then have "M + b - a < M" using assms(1) by simp
  then have "(M + b - a) mod M = M + b - a" by simp
  then show ?thesis using False by (simp add: add.commute)
qed

lemma unat_time_delta_of_mod:
  "unat (time_delta_of a b) = (2 ^ 32 + unat b - unat a) mod 2 ^ 32"
proof -
  have a: "unat a < 2 ^ 32" and b: "unat b < 2 ^ 32"
    using unsigned_less [of a] unsigned_less [of b] by simp_all
  have "unat (b - a) = (if unat a \<le> unat b then unat b - unat a else unat b + 2 ^ 32 - unat a)"
    by (simp add: unat_sub_if')
  also have "\<dots> = (2 ^ 32 + unat b - unat a) mod 2 ^ 32"
    using a b by (rule wrap_sub_nat)
  finally show ?thesis by (simp only: time_delta_of_def)
qed

lemma fdiv_by_zero_cycles:
  "fdiv (float_of_uint32 clock) (float_of_uint32 0) = (if clock = 0 then NaN else PInf)"
proof (cases "clock = 0")
  case True
  then show ?thesis by (simp add: float_of_uint32_def)
next
  case False
  then have "0 < unat clock" by (simp add: unat_gt_0)
  then have "0 < real (unat clock)" by (simp only: of_nat_0_less_iff)
  then show ?thesis using False by (simp add: float_of_uint32_def)
qed

section \<open>Facts about the loop\<close>

lemma game_loop_Blocked_append:
  "game_loop clock st pre = (Blocked, st1) \<Longrightarrow>
   game_loop clock st (pre @ rest) = game_loop clock st1 rest"
proof (induction clock st pre rule: game_loop.induct)
  case (1 clock st)
  then show ?case by simp
next
  case (2 clock st ev rest')
  then show ?case by simp
next
  case (3 clock st flags cyccnt rest')
  then show ?case
    by (simp add: Let_def split: if_splits)
qed

lemma engine_game_loop:
  "game_loop clock st stimuli = (out, st1) \<Longrightarrow> engine (run st1) = engine (run st)"
proof (induction clock st stimuli rule: game_loop.induct)
  case (1 clock st)
  then show ?case by simp
next
  case (2 clock st ev rest)
  then show ?case by simp
next
  case (3 clock st flags cyccnt rest)
  then show ?case
    by (auto simp add: Let_def engine_frame_update split: if_splits)
qed

lemma game_loop_callback_inputs:
  assumes "\<forall>i \<in> set (callback_inputs (trace st)). pressed i AND released i = 0"
  shows "\<forall>i \<in> set (callback_inputs (trace (snd (game_loop clock st stimuli)))).
           pressed i AND released i = 0"
  using assms
proof (induction clock st stimuli rule: game_loop.induct)
  case (1 clock st)
  then show ?case by simp
next
  case (2 clock st ev rest)
  then show ?case by simp
next
  case (3 clock st flags cyccnt rest)
  let ?st' = "if flags AND GameThreadFlagUpdate \<noteq> 0 then frame_update clock cyccnt st else st"
  have inv: "\<forall>i \<in> set (callback_inputs (trace ?st')). pressed i AND released i = 0"
    using "3.prems" by (simp add: callback_inputs_frame_update pressed_released_disjoint)
  show ?case
  proof (cases "flags AND FuriFlagError = 0")
    case False
    then show ?thesis using "3.prems" by simp
  next
    case noerr: True
    show ?thesis
    proof (cases "flags AND GameThreadFlagStop \<noteq> 0")
      case True
      then show ?thesis using noerr inv by (simp add: Let_def)
    next
      case False
      with noerr have "\<forall>i \<in> set (callback_inputs (trace (snd (game_loop clock ?st' rest)))).
           pressed i AND released i = 0"
        using "3.IH" [OF _ refl _ inv] by simp
      then show ?thesis using noerr False by (simp add: Let_def)
    qed
  qed
qed

lemma callback_inputs_game_engine_run:
  "callback_inputs (snd (game_engine_run clock e c stimuli)) =
   callback_inputs (trace (snd (game_loop clock (run_init e c) stimuli)))"
  by (cases "game_loop clock (run_init e c) stimuli";
      cases "fst (game_loop clock (run_init e c) stimuli)")
     (simp_all add: game_engine_run_def callback_inputs_append)

lemma game_loop_invariant:
  fixes P :: "loop_state \<Rightarrow> bool"
  assumes "P st"
    and "\<And>s clk now. P s \<Longrightarrow> P (frame_update clk now s)"
    and "\<And>s a. P s \<Longrightarrow> P (s\<lparr>input_state := a\<rparr>)"
  shows "P (snd (game_loop clock st stimuli))"
  using assms(1)
proof (induction clock st stimuli rule: game_loop.induct)
  case (1 clock st)
  then show ?case by simp
next
  case (2 clock st ev rest)
  then show ?case by (simp add: assms(3))
next
  case (3 clock st flags cyccnt rest)
  let ?st' = "if flags AND GameThreadFlagUpdate \<noteq> 0 then frame_update clock cyccnt st else st"
  have P': "P ?st'" using "3.prems" by (simp add: assms(2))
  show ?case
  proof (cases "flags AND FuriFlagError = 0")
    case False
    then show ?thesis using "3.prems" by simp
  next
    case noerr: True
    show ?thesis
    proof (cases "flags AND GameThreadFlagStop \<noteq> 0")
      case True
      then show ?thesis using noerr P' by (simp add: Let_def)
    next
      case False
      with noerr have "P (snd (game_loop clock ?st' rest))"
        using "3.IH" [OF _ refl _ P'] by simp
      then show ?thesis using noerr False by (simp add: Let_def)
    qed
  qed
qed

lemma trace_game_loop_extends:
  "\<exists>ext. trace (snd (game_loop clock st stimuli)) = trace st @ ext"
proof -
  have "\<exists>ext. trace (snd (game_loop clock st stimuli)) = trace st @ ext"
  proof (rule game_loop_invariant [where P = "\<lambda>s. \<exists>ext. trace s = trace st @ ext"])
    show "\<exists>ext. trace st = trace st @ ext" by simp
  next
    fix s :: loop_state and clock now
    assume "\<exists>ext. trace s = trace st @ ext"
    then obtain ext where "trace s = trace st @ ext" ..
    then show "\<exists>ext. trace (frame_update clock now s) = trace st @ ext"
      by (simp add: trace_frame_update)
  next
    fix s :: loop_state and a
    assume "\<exists>ext. trace s = trace st @ ext"
    then show "\<exists>ext. trace (s\<lparr>input_state := a\<rparr>) = trace st @ ext" by simp
  qed
  then show ?thesis .
qed

lemma input_state_game_loop_Blocked:
  "game_loop clock st pre = (Blocked, st1) \<Longrightarrow>
   input_state st1 = accumulator_after (input_state st) pre"
proof (induction clock st pre rule: game_loop.induct)
  case (1 clock st)
  then show ?case by simp
next
  case (2 clock st ev rest)
  then show ?case by simp
next
  case (3 clock st flags cyccnt rest)
  then show ?case
    by (auto simp add: Let_def frame_update_def split: if_splits)
qed

lemma time_start_game_loop_Blocked:
  "game_loop clock st pre = (Blocked, st1) \<Longrightarrow>
   time_start st1 = previous_reading (time_start st) pre"
proof (induction clock st pre rule: game_loop.induct)
  case (1 clock st)
  then show ?case by simp
next
  case (2 clock st ev rest)
  then show ?case by simp
next
  case (3 clock st flags cyccnt rest)
  then show ?case
    by (auto simp add: Let_def time_start_frame_update split: if_splits)
qed

lemma spec_input_states_snoc:
  "spec_input_states a (xs @ [c]) =
     spec_input_states a xs @
       [\<lparr>held = c, pressed = c AND NOT (last (a # xs)), released = NOT c AND last (a # xs)\<rparr>]"
  by (induction xs arbitrary: a) simp_all

lemma edges_invariant:
  "input_prev_state (snd (game_loop clock (run_init e c) stimuli)) =
     last (0 # map held (callback_inputs (trace (snd (game_loop clock (run_init e c) stimuli)))))
   \<and> callback_inputs (trace (snd (game_loop clock (run_init e c) stimuli))) =
     spec_input_states 0
       (map held (callback_inputs (trace (snd (game_loop clock (run_init e c) stimuli)))))"
proof (rule game_loop_invariant [where P = "\<lambda>s.
    input_prev_state s = last (0 # map held (callback_inputs (trace s)))
    \<and> callback_inputs (trace s) = spec_input_states 0 (map held (callback_inputs (trace s)))"])
  show "input_prev_state (run_init e c) =
      last (0 # map held (callback_inputs (trace (run_init e c))))
    \<and> callback_inputs (trace (run_init e c)) =
      spec_input_states 0 (map held (callback_inputs (trace (run_init e c))))"
    by (simp add: run_init_def)
next
  fix s :: loop_state and clock now
  assume a: "input_prev_state s = last (0 # map held (callback_inputs (trace s)))
    \<and> callback_inputs (trace s) = spec_input_states 0 (map held (callback_inputs (trace s)))"
  have "spec_input_states 0 (map held (callback_inputs (trace s)) @ [input_state s]) =
        callback_inputs (trace s) @
        [\<lparr>held = input_state s, pressed = input_state s AND NOT (input_prev_state s),
          released = NOT (input_state s) AND input_prev_state s\<rparr>]"
    using a by (simp only: spec_input_states_snoc)
  then show "input_prev_state (frame_update clock now s) =
      last (0 # map held (callback_inputs (trace (frame_update clock now s))))
    \<and> callback_inputs (trace (frame_update clock now s)) =
      spec_input_states 0 (map held (callback_inputs (trace (frame_update clock now s))))"
    by (simp add: callback_inputs_frame_update input_prev_state_frame_update)
next
  fix s :: loop_state and a
  assume "input_prev_state s = last (0 # map held (callback_inputs (trace s)))
    \<and> callback_inputs (trace s) = spec_input_states 0 (map held (callback_inputs (trace s)))"
  then show "input_prev_state (s\<lparr>input_state := a\<rparr>) =
      last (0 # map held (callback_inputs (trace (s\<lparr>input_state := a\<rparr>))))
    \<and> callback_inputs (trace (s\<lparr>input_state := a\<rparr>)) =
      spec_input_states 0 (map held (callback_inputs (trace (s\<lparr>input_state := a\<rparr>))))"
    by simp
qed

lemma fst_game_engine_run:
  "fst (game_engine_run clock e c stimuli) = fst (game_loop clock (run_init e c) stimuli)"
  by (cases "game_loop clock (run_init e c) stimuli";
      cases "fst (game_loop clock (run_init e c) stimuli)")
     (simp_all add: game_engine_run_def)

lemma callback_runs_game_engine_run:
  "callback_runs (snd (game_engine_run clock e c stimuli)) =
   callback_runs (trace (snd (game_loop clock (run_init e c) stimuli)))"
  by (cases "game_loop clock (run_init e c) stimuli";
      cases "fst (game_loop clock (run_init e c) stimuli)")
     (simp_all add: game_engine_run_def callback_runs_append)

lemma game_loop_update_step:
  assumes pre: "game_loop clock st pre = (Blocked, st1)"
    and upd: "flags AND GameThreadFlagUpdate \<noteq> 0"
    and noerr: "flags AND FuriFlagError = 0"
  shows "\<exists>ext. trace (snd (game_loop clock st (pre @ Wake flags now # post))) =
           trace (frame_update clock now st1) @ ext"
proof -
  have eq: "game_loop clock st (pre @ Wake flags now # post) =
        game_loop clock st1 (Wake flags now # post)"
    using pre by (rule game_loop_Blocked_append)
  show ?thesis
  proof (cases "flags AND GameThreadFlagStop \<noteq> 0")
    case True
    then show ?thesis using eq upd noerr by (simp add: Let_def)
  next
    case False
    then have "game_loop clock st1 (Wake flags now # post) =
        game_loop clock (frame_update clock now st1) post"
      using upd noerr by (simp add: Let_def)
    then show ?thesis using eq trace_game_loop_extends [of clock "frame_update clock now st1" post]
      by simp
  qed
qed

lemma game_loop_update_last:
  assumes pre: "game_loop clock st pre = (Blocked, st1)"
    and upd: "flags AND GameThreadFlagUpdate \<noteq> 0"
    and noerr: "flags AND FuriFlagError = 0"
  shows "snd (game_loop clock st (pre @ [Wake flags now])) = frame_update clock now st1"
proof -
  have "game_loop clock st (pre @ [Wake flags now]) = game_loop clock st1 [Wake flags now]"
    using pre by (rule game_loop_Blocked_append)
  then show ?thesis using upd noerr by (simp add: Let_def)
qed


lemma previous_reading_append:
  "previous_reading c (xs @ ys) = previous_reading (previous_reading c xs) ys"
  by (induction c xs rule: previous_reading.induct) simp_all

lemma Blocked_state:
  assumes "fst (game_engine_run clock e c pre) = Blocked"
  shows "game_loop clock (run_init e c) pre =
           (Blocked, snd (game_loop clock (run_init e c) pre))"
  using assms by (simp add: fst_game_engine_run prod_eq_iff)

lemma run_frame_update:
  "run (frame_update clock now st) =
     \<lparr>engine = engine (run st),
      fps = fdiv (float_of_uint32 clock) (float_of_uint32 (time_delta_of (time_start st) now))\<rparr>"
  by (simp add: frame_update_def Let_def)

section \<open>The handle's operations\<close>

text \<open>
  Claim C1, as the specification states it, fails: \<open>delta_time()\<close> is not the inverse of the
  configured rate. On a 64 MHz device with a target of 60 frames per second, an update
  that comes 3200000 cycles after the start hands the callback a handle whose measured
  rate is 20; its \<open>delta_time()\<close> is 1/20, not 1/60.
\<close>

theorem C1_delta_time_not_inverse_target_counterexample:
  "callback_runs (snd (game_engine_run demo_clock demo_engine 0
      [Wake GameThreadFlagUpdate 3200000]))
     = [\<lparr>engine = demo_engine, fps = Fin 20\<rparr>]
   \<and> running_game_engine_get_delta_time \<lparr>engine = demo_engine, fps = Fin 20\<rparr> = Fin (1 / 20)
   \<and> fdiv (Fin 1) (GameEngineSettings.fps (settings demo_engine)) = Fin (1 / 60)
   \<and> running_game_engine_get_delta_time \<lparr>engine = demo_engine, fps = Fin 20\<rparr>
       \<noteq> fdiv (Fin 1) (GameEngineSettings.fps (settings demo_engine))"
  by (simp add: demo_eval demo_engine_def demo_settings_def
      game_engine_settings_init_def running_game_engine_get_delta_time_def)

text \<open>
  Claim C1, amended. For every handle, \<open>delta_time()\<close> is 1 divided by the measured rate
  stored in the handle, whatever engine (and so whatever configured rate) the handle
  refers to.
\<close>

theorem C1_delta_time_is_inverse_measured_fps:
  "running_game_engine_get_delta_time r = fdiv (Fin 1) (fps r)
   \<and> running_game_engine_get_delta_time (r\<lparr>engine := e'\<rparr>) =
       running_game_engine_get_delta_time r"
  by (simp add: running_game_engine_get_delta_time_def)

text \<open>
  Claim C6. For every handle, \<open>delta_frames()\<close> is the measured rate stored in the handle
  divided by the configured rate of its engine. With a finite, non-zero configured rate
  it is exactly 1 when the measured rate equals it and exactly 2 when the measured rate
  is twice it.
\<close>

theorem C6_delta_frames_is_measured_over_target:
  "running_game_engine_get_delta_frames r =
     fdiv (fps r) (GameEngineSettings.fps (settings (engine r)))
   \<and> (t \<noteq> 0 \<longrightarrow> GameEngineSettings.fps (settings (engine r)) = Fin t \<longrightarrow>
        fps r = GameEngineSettings.fps (settings (engine r)) \<longrightarrow>
        running_game_engine_get_delta_frames r = Fin 1)
   \<and> (t \<noteq> 0 \<longrightarrow> GameEngineSettings.fps (settings (engine r)) = Fin t \<longrightarrow>
        fps r = Fin (2 * t) \<longrightarrow>
        running_game_engine_get_delta_frames r = Fin 2)"
  by (simp add: running_game_engine_get_delta_frames_def)

theorem C6_delta_frames_is_measured_over_target_witness:
  "(60 :: real) \<noteq> 0
   \<and> GameEngineSettings.fps (settings (engine \<lparr>engine = demo_engine, fps = Fin 60\<rparr>)) = Fin 60
   \<and> running_game_engine_get_delta_frames \<lparr>engine = demo_engine, fps = Fin 60\<rparr> = Fin 1
   \<and> running_game_engine_get_delta_frames \<lparr>engine = demo_engine, fps = Fin 120\<rparr> = Fin 2"
  using C6_delta_frames_is_measured_over_target [of "\<lparr>engine = demo_engine, fps = Fin 60\<rparr>" 60]
        C6_delta_frames_is_measured_over_target [of "\<lparr>engine = demo_engine, fps = Fin 120\<rparr>" 60]
  by (simp add: demo_engine_def demo_settings_def game_engine_settings_init_def)

section \<open>Timing of a frame\<close>

text \<open>
  Claim C2, as the specification states it, fails: the rate is computed without any guard.
  When the update comes with the cycle counter at the value recorded at the start, the
  elapsed count is 0, the division by it is carried out, and the handle passed to the
  callback holds the result, plus infinity: the value was neither left as it was (0 on
  entry) nor clamped to a finite one.
\<close>

theorem C2_fps_division_unguarded_counterexample:
  "time_delta_of (time_start (run_init demo_engine 5)) 5 = 0
   \<and> fps (run (run_init demo_engine 5)) = Fin 0
   \<and> fps (run (frame_update demo_clock 5 (run_init demo_engine 5))) =
       fdiv (float_of_uint32 demo_clock) (float_of_uint32 0)
   \<and> fps (run (frame_update demo_clock 5 (run_init demo_engine 5))) = PInf
   \<and> \<not> isfinite (fps (run (frame_update demo_clock 5 (run_init demo_engine 5))))
   \<and> callback_runs (snd (game_engine_run demo_clock demo_engine 5
        [Wake GameThreadFlagUpdate 5]))
       = [\<lparr>engine = demo_engine, fps = PInf\<rparr>]"
  by (simp add: demo_eval)

text \<open>
  Claim C2, amended. In every frame-update step the rate is computed unconditionally as
  the float quotient of the clock frequency by the elapsed cycle count, and the handle
  holding it is the one passed to the callback. With an elapsed count of zero the float
  division is still carried out; it does not trap and gives plus infinity (NaN when the
  clock frequency is zero too).
\<close>

theorem C2_fps_division_always_performed:
  "fps (run (frame_update clock now st)) =
     fdiv (float_of_uint32 clock) (float_of_uint32 (time_delta_of (time_start st) now))
   \<and> (now = time_start st \<longrightarrow>
        fps (run (frame_update clock now st)) = (if clock = 0 then NaN else PInf))
   \<and> callback_runs (trace (frame_update clock now st)) =
        callback_runs (trace st) @ [run (frame_update clock now st)]"
  by (simp add: fps_frame_update callback_runs_frame_update time_delta_of_def
      fdiv_by_zero_cycles)

theorem C2_fps_division_always_performed_witness:
  "(5 :: uint32_t) = time_start (run_init demo_engine 5) \<and>
   fps (run (frame_update demo_clock 5 (run_init demo_engine 5))) = PInf"
proof -
  have h: "(5 :: uint32_t) = time_start (run_init demo_engine 5)"
    by (simp add: run_init_def)
  from C2_fps_division_always_performed [of demo_clock 5 "run_init demo_engine 5"]
  have "(5 :: uint32_t) = time_start (run_init demo_engine 5) \<longrightarrow>
        fps (run (frame_update demo_clock 5 (run_init demo_engine 5))) =
          (if demo_clock = 0 then NaN else PInf)"
    by blast
  with h show ?thesis by (simp add: demo_clock_def)
qed

text \<open>
  Claim C7. Let the loop be blocked after the stimuli \<open>pre\<close> and let the next wake-up
  carry the Update flag (and no error) while the cycle counter reads \<open>now\<close>. The elapsed
  count of that frame is the 32-bit unsigned difference \<open>now - start\<close>, that is
  \<open>(now - start) mod 2^32\<close>, where \<open>start\<close> is the reading of the preceding update, or the
  reading taken on entry to \<open>game_engine_run\<close> when there was none; the handle passed to
  the callback carries the rate computed from it, and \<open>start\<close> becomes \<open>now\<close>. If the
  counter really advanced from \<open>S\<close> to \<open>N\<close> by fewer than \<open>2^32\<close> cycles, the difference of
  the two readings (each taken modulo \<open>2^32\<close>) is exactly \<open>N - S\<close>, also when the counter
  wrapped.
\<close>

theorem C7_elapsed_cycles_modular:
  assumes pre: "fst (game_engine_run clock e c pre) = Blocked"
    and upd: "flags AND GameThreadFlagUpdate \<noteq> 0"
    and noerr: "flags AND FuriFlagError = 0"
  shows
    "(let start = previous_reading c pre;
          time_delta = time_delta_of start now;
          handle = \<lparr>engine = e,
                    fps = fdiv (float_of_uint32 clock) (float_of_uint32 time_delta)\<rparr>
      in (\<exists>later. callback_runs (snd (game_engine_run clock e c (pre @ Wake flags now # post)))
                    = callback_runs (snd (game_engine_run clock e c pre)) @ handle # later)
         \<and> callback_runs (snd (game_engine_run clock e c (pre @ [Wake flags now])))
             = callback_runs (snd (game_engine_run clock e c pre)) @ [handle]
         \<and> time_start (snd (game_loop clock (run_init e c) (pre @ [Wake flags now]))) = now
         \<and> previous_reading c (pre @ [Wake flags now]) = now
         \<and> time_delta = now - start
         \<and> unat time_delta = (2 ^ 32 + unat now - unat start) mod 2 ^ 32
         \<and> (S \<le> N \<longrightarrow> N - S < 2 ^ 32 \<longrightarrow> start = word_of_nat S \<longrightarrow> now = word_of_nat N \<longrightarrow>
              unat time_delta = N - S))
     \<and> time_start (run_init e c) = c"
proof -
  define st1 where "st1 = snd (game_loop clock (run_init e c) pre)"
  define s where "s = previous_reading c pre"
  define h where "h = \<lparr>engine = e,
      fps = fdiv (float_of_uint32 clock) (float_of_uint32 (time_delta_of s now))\<rparr>"
  have g: "game_loop clock (run_init e c) pre = (Blocked, st1)"
    unfolding st1_def using pre by (rule Blocked_state)
  have old: "callback_runs (snd (game_engine_run clock e c pre)) = callback_runs (trace st1)"
    by (simp add: callback_runs_game_engine_run st1_def)
  have start: "time_start st1 = s"
    unfolding s_def using time_start_game_loop_Blocked [OF g] by (simp add: run_init_def)
  have "engine (run st1) = e"
    using engine_game_loop [OF g] by (simp add: run_init_def)
  then have handle: "run (frame_update clock now st1) = h"
    by (simp add: run_frame_update start h_def)
  obtain ext where "trace (snd (game_loop clock (run_init e c) (pre @ Wake flags now # post))) =
           trace (frame_update clock now st1) @ ext"
    using game_loop_update_step [OF g upd noerr] by blast
  then have "callback_runs (snd (game_engine_run clock e c (pre @ Wake flags now # post))) =
      callback_runs (trace st1) @ h # callback_runs ext"
    by (simp add: callback_runs_game_engine_run callback_runs_append
        callback_runs_frame_update handle)
  then have step: "\<exists>later.
      callback_runs (snd (game_engine_run clock e c (pre @ Wake flags now # post))) =
      callback_runs (trace st1) @ h # later"
    by blast
  have lst: "snd (game_loop clock (run_init e c) (pre @ [Wake flags now])) =
      frame_update clock now st1"
    using g upd noerr by (rule game_loop_update_last)
  have one: "callback_runs (snd (game_engine_run clock e c (pre @ [Wake flags now]))) =
      callback_runs (trace st1) @ [h]"
    by (simp add: callback_runs_game_engine_run lst callback_runs_frame_update handle)
  have new_start: "time_start (snd (game_loop clock (run_init e c) (pre @ [Wake flags now]))) = now"
    by (simp add: lst time_start_frame_update)
  have new_reading: "previous_reading c (pre @ [Wake flags now]) = now"
    using upd by (simp add: previous_reading_append)
  have sub: "time_delta_of s now = now - s"
    by (simp add: time_delta_of_def)
  have md: "unat (time_delta_of s now) = (2 ^ 32 + unat now - unat s) mod 2 ^ 32"
    by (rule unat_time_delta_of_mod)
  have wrap: "S \<le> N \<longrightarrow> N - S < 2 ^ 32 \<longrightarrow> s = word_of_nat S \<longrightarrow> now = word_of_nat N \<longrightarrow>
      unat (time_delta_of s now) = N - S"
    by (simp add: unat_time_delta_of)
  have init: "time_start (run_init e c) = c"
    by (simp add: run_init_def)
  show ?thesis
    unfolding Let_def old s_def [symmetric] h_def [symmetric]
    using step one new_start new_reading sub md wrap init by (intro conjI)
qed

theorem C7_elapsed_cycles_modular_witness:
  "fst (game_engine_run demo_clock demo_engine 4293967290 [Wake 1 4294967290]) = Blocked
   \<and> (1 :: uint32_t) AND GameThreadFlagUpdate \<noteq> 0
   \<and> (1 :: uint32_t) AND FuriFlagError = 0
   \<and> (4294967290 :: nat) \<le> 4294967306 \<and> (4294967306 :: nat) - 4294967290 < 2 ^ 32
   \<and> previous_reading 4293967290 [Wake 1 4294967290] = word_of_nat 4294967290
   \<and> (10 :: uint32_t) = word_of_nat 4294967306
   \<and> unat (time_delta_of (previous_reading 4293967290 [Wake 1 4294967290]) 10) = 16
   \<and> callback_runs (snd (game_engine_run demo_clock demo_engine 4293967290
        ([Wake 1 4294967290] @ [Wake 1 10])))
       = [\<lparr>engine = demo_engine, fps = Fin 64\<rparr>,
          \<lparr>engine = demo_engine, fps = Fin 4000000\<rparr>]"
proof -
  have b: "fst (game_engine_run demo_clock demo_engine 4293967290 [Wake 1 4294967290]) = Blocked"
    by (simp add: demo_eval)
  have u: "(1 :: uint32_t) AND GameThreadFlagUpdate \<noteq> 0"
    by (simp add: GameThreadFlagUpdate_def)
  have n: "(1 :: uint32_t) AND FuriFlagError = 0"
    by (simp add: FuriFlagError_def)
  show ?thesis
    using b u n C7_elapsed_cycles_modular [OF b u n, of 10 "[]" 4294967290 4294967306]
    by (simp add: demo_eval)
qed

section \<open>The input event handler\<close>

lemma keys_eq:
  "keys = [GameKeyUp, GameKeyDown, GameKeyRight, GameKeyLeft, GameKeyOk, GameKeyBack]"
  by (simp add: keys_def InputKeyUp_def InputKeyDown_def InputKeyRight_def InputKeyLeft_def
      InputKeyOk_def InputKeyBack_def numeral_eq_Suc)

lemma keys_count_eq: "keys_count = 6"
  by (simp add: keys_count_def keys_eq)




text \<open>
  Claim C9. An input event whose raw key code lies outside the table of logical keys
  (\<open>key \<ge> keys_count\<close>) leaves the accumulator as it was; the handler has no error
  result, so nothing is signalled.
\<close>

theorem C9_unrecognized_key_ignored:
  "keys_count \<le> key event \<Longrightarrow> input_events_callback event s = s"
  by (simp add: input_events_callback_def)

theorem C9_unrecognized_key_ignored_witness:
  "keys_count \<le> key \<lparr>key = 6, type = InputTypePress\<rparr> \<and>
   input_events_callback \<lparr>key = 6, type = InputTypePress\<rparr> 5 = 5"
  using C9_unrecognized_key_ignored [of "\<lparr>key = 6, type = InputTypePress\<rparr>" 5]
  by (simp add: keys_count_eq)



lemmas loop_eval =
  demo_eval fst_conv snd_conv input_events_callback_def keys_count_eq keys_eq
  InputKeyUp_def InputKeyDown_def InputKeyOk_def GameKeyUp_def GameKeyDown_def GameKeyOk_def

section \<open>The input state of a frame\<close>

text \<open>
  Claim C3. Let the loop be blocked after the stimuli \<open>pre\<close> and let the next wake-up
  carry the Update flag (and no error). The callback is then called once more, with
  \<open>held\<close> = the accumulator as the input events of \<open>pre\<close> left it, \<open>pressed\<close> = held AND
  NOT previous, \<open>released\<close> = NOT held AND previous, where previous is the \<open>held\<close> of the
  frame before (0 when there was none); the value read is stored as the previous
  snapshot. Over a whole run the input states are the ones the specification derives
  from the successive snapshots, starting from 0. With previous \<open>{Up}\<close> and \<open>{Up, Down}\<close>
  read, the state is pressed \<open>{Down}\<close>, released \<open>{}\<close>, held \<open>{Up, Down}\<close>; with previous
  \<open>{Ok}\<close> and \<open>{}\<close> read it is released \<open>{Ok}\<close>, pressed \<open>{}\<close>, held \<open>{}\<close>.
\<close>

theorem C3_input_state_edges:
  assumes pre: "fst (game_engine_run clock e c pre) = Blocked"
    and upd: "flags AND GameThreadFlagUpdate \<noteq> 0"
    and noerr: "flags AND FuriFlagError = 0"
  shows
    "(let old = callback_inputs (snd (game_engine_run clock e c pre));
          previous_held = last (0 # map held old);
          current_held = accumulator_after 0 pre;
          input = \<lparr>held = current_held,
                   pressed = current_held AND NOT previous_held,
                   released = NOT current_held AND previous_held\<rparr>
      in (\<exists>later. callback_inputs (snd (game_engine_run clock e c (pre @ Wake flags now # post)))
                    = old @ input # later)
         \<and> callback_inputs (snd (game_engine_run clock e c (pre @ [Wake flags now])))
             = old @ [input]
         \<and> input_prev_state (snd (game_loop clock (run_init e c) (pre @ [Wake flags now])))
             = current_held
         \<and> (previous_held = GameKeyUp \<longrightarrow> current_held = GameKeyUp OR GameKeyDown \<longrightarrow>
              input = \<lparr>held = GameKeyUp OR GameKeyDown, pressed = GameKeyDown, released = 0\<rparr>)
         \<and> (previous_held = GameKeyOk \<longrightarrow> current_held = 0 \<longrightarrow>
              input = \<lparr>held = 0, pressed = 0, released = GameKeyOk\<rparr>))
     \<and> input_prev_state (run_init e c) = 0
     \<and> callback_inputs (snd (game_engine_run clock e c stimuli)) =
         spec_input_states 0 (map held (callback_inputs (snd (game_engine_run clock e c stimuli))))"
proof -
  define st1 where "st1 = snd (game_loop clock (run_init e c) pre)"
  define p where "p = last (0 # map held (callback_inputs (trace st1)))"
  define a where "a = accumulator_after 0 pre"
  have g: "game_loop clock (run_init e c) pre = (Blocked, st1)"
    unfolding st1_def using pre by (rule Blocked_state)
  have old: "callback_inputs (snd (game_engine_run clock e c pre)) = callback_inputs (trace st1)"
    by (simp add: callback_inputs_game_engine_run st1_def)
  have prev: "input_prev_state st1 = p"
    unfolding p_def using edges_invariant [of clock e c pre] by (simp only: st1_def)
  have cur: "input_state st1 = a"
    unfolding a_def using input_state_game_loop_Blocked [OF g] by (simp add: run_init_def)
  obtain ext where "trace (snd (game_loop clock (run_init e c) (pre @ Wake flags now # post))) =
           trace (frame_update clock now st1) @ ext"
    using game_loop_update_step [OF g upd noerr] by blast
  then have "callback_inputs (snd (game_engine_run clock e c (pre @ Wake flags now # post))) =
      callback_inputs (trace st1) @
        \<lparr>held = a, pressed = a AND NOT p, released = NOT a AND p\<rparr> # callback_inputs ext"
    by (simp add: callback_inputs_game_engine_run callback_inputs_append
        callback_inputs_frame_update prev cur)
  then have step: "\<exists>later.
      callback_inputs (snd (game_engine_run clock e c (pre @ Wake flags now # post))) =
      callback_inputs (trace st1) @
        \<lparr>held = a, pressed = a AND NOT p, released = NOT a AND p\<rparr> # later"
    by blast
  have lst: "snd (game_loop clock (run_init e c) (pre @ [Wake flags now])) =
      frame_update clock now st1"
    using g upd noerr by (rule game_loop_update_last)
  have one: "callback_inputs (snd (game_engine_run clock e c (pre @ [Wake flags now]))) =
      callback_inputs (trace st1) @
        [\<lparr>held = a, pressed = a AND NOT p, released = NOT a AND p\<rparr>]"
    by (simp add: callback_inputs_game_engine_run lst callback_inputs_frame_update prev cur)
  have upd_prev: "input_prev_state (snd (game_loop clock (run_init e c) (pre @ [Wake flags now])))
      = a"
    by (simp add: lst input_prev_state_frame_update cur)
  have whole: "callback_inputs (snd (game_engine_run clock e c stimuli)) =
         spec_input_states 0 (map held (callback_inputs (snd (game_engine_run clock e c stimuli))))"
    using edges_invariant [of clock e c stimuli]
    by (simp only: callback_inputs_game_engine_run)
  have init: "input_prev_state (run_init e c) = 0"
    by (simp add: run_init_def)
  have ex1: "p = GameKeyUp \<longrightarrow> a = GameKeyUp OR GameKeyDown \<longrightarrow>
      \<lparr>held = a, pressed = a AND NOT p, released = NOT a AND p\<rparr> =
      \<lparr>held = GameKeyUp OR GameKeyDown, pressed = GameKeyDown, released = 0\<rparr>"
    by (simp add: GameKeyUp_def GameKeyDown_def)
  have ex2: "p = GameKeyOk \<longrightarrow> a = 0 \<longrightarrow>
      \<lparr>held = a, pressed = a AND NOT p, released = NOT a AND p\<rparr> =
      \<lparr>held = 0, pressed = 0, released = GameKeyOk\<rparr>"
    by simp
  show ?thesis
    unfolding Let_def old p_def [symmetric] a_def [symmetric]
    using step one upd_prev whole init ex1 ex2 by (intro conjI)
qed


theorem C3_input_state_edges_witness:
  "fst (game_engine_run demo_clock demo_engine 0
     [Input \<lparr>key = InputKeyUp, type = InputTypePress\<rparr>, Wake 1 1000000,
      Input \<lparr>key = InputKeyDown, type = InputTypePress\<rparr>]) = Blocked
   \<and> (1 :: uint32_t) AND GameThreadFlagUpdate \<noteq> 0
   \<and> (1 :: uint32_t) AND FuriFlagError = 0
   \<and> last (0 # map held (callback_inputs (snd (game_engine_run demo_clock demo_engine 0
       [Input \<lparr>key = InputKeyUp, type = InputTypePress\<rparr>, Wake 1 1000000,
        Input \<lparr>key = InputKeyDown, type = InputTypePress\<rparr>])))) = GameKeyUp
   \<and> accumulator_after 0
       [Input \<lparr>key = InputKeyUp, type = InputTypePress\<rparr>, Wake 1 1000000,
        Input \<lparr>key = InputKeyDown, type = InputTypePress\<rparr>] = GameKeyUp OR GameKeyDown
   \<and> callback_inputs (snd (game_engine_run demo_clock demo_engine 0
       ([Input \<lparr>key = InputKeyUp, type = InputTypePress\<rparr>, Wake 1 1000000,
         Input \<lparr>key = InputKeyDown, type = InputTypePress\<rparr>] @ [Wake 1 2000000])))
       = [\<lparr>held = 1, pressed = 1, released = 0\<rparr>, \<lparr>held = 3, pressed = 2, released = 0\<rparr>]
   \<and> fst (game_engine_run demo_clock demo_engine 0
     [Input \<lparr>key = InputKeyOk, type = InputTypePress\<rparr>, Wake 1 1000000,
      Input \<lparr>key = InputKeyOk, type = InputTypeRelease\<rparr>]) = Blocked
   \<and> last (0 # map held (callback_inputs (snd (game_engine_run demo_clock demo_engine 0
       [Input \<lparr>key = InputKeyOk, type = InputTypePress\<rparr>, Wake 1 1000000,
        Input \<lparr>key = InputKeyOk, type = InputTypeRelease\<rparr>])))) = GameKeyOk
   \<and> accumulator_after 0
       [Input \<lparr>key = InputKeyOk, type = InputTypePress\<rparr>, Wake 1 1000000,
        Input \<lparr>key = InputKeyOk, type = InputTypeRelease\<rparr>] = 0
   \<and> callback_inputs (snd (game_engine_run demo_clock demo_engine 0
       ([Input \<lparr>key = InputKeyOk, type = InputTypePress\<rparr>, Wake 1 1000000,
         Input \<lparr>key = InputKeyOk, type = InputTypeRelease\<rparr>] @ [Wake 1 2000000])))
       = [\<lparr>held = 16, pressed = 16, released = 0\<rparr>, \<lparr>held = 0, pressed = 0, released = 16\<rparr>]"
proof -
  have b1: "fst (game_engine_run demo_clock demo_engine 0
     [Input \<lparr>key = InputKeyUp, type = InputTypePress\<rparr>, Wake 1 1000000,
      Input \<lparr>key = InputKeyDown, type = InputTypePress\<rparr>]) = Blocked"
    by (simp add: loop_eval)
  have b2: "fst (game_engine_run demo_clock demo_engine 0
     [Input \<lparr>key = InputKeyOk, type = InputTypePress\<rparr>, Wake 1 1000000,
      Input \<lparr>key = InputKeyOk, type = InputTypeRelease\<rparr>]) = Blocked"
    by (simp add: loop_eval)
  have u: "(1 :: uint32_t) AND GameThreadFlagUpdate \<noteq> 0"
    by (simp add: GameThreadFlagUpdate_def)
  have n: "(1 :: uint32_t) AND FuriFlagError = 0"
    by (simp add: FuriFlagError_def)
  show ?thesis
    using b1 b2 u n
      C3_input_state_edges [OF b1 u n, of 2000000 "[]" "[]"]
      C3_input_state_edges [OF b2 u n, of 2000000 "[]" "[]"]
    by (simp add: loop_eval)
qed

text \<open>
  Claim C4. Whatever the previous snapshot and the accumulator hold, the input state
  derived in a frame has \<open>pressed AND released = 0\<close>; so every input state handed to the
  callback during a run of the engine has no key both pressed and released.
\<close>

theorem C4_pressed_released_disjoint:
  "(let i = last (callback_inputs (trace (frame_update clock now st)))
    in pressed i AND released i = 0)
   \<and> (\<forall>i \<in> set (callback_inputs (snd (game_engine_run clock e c stimuli))).
        pressed i AND released i = 0)"
proof
  show "let i = last (callback_inputs (trace (frame_update clock now st)))
    in pressed i AND released i = 0"
    by (simp add: callback_inputs_frame_update pressed_released_disjoint)
  have "\<forall>i \<in> set (callback_inputs (trace (run_init e c))). pressed i AND released i = 0"
    by (simp add: run_init_def)
  then show "\<forall>i \<in> set (callback_inputs (snd (game_engine_run clock e c stimuli))).
        pressed i AND released i = 0"
    unfolding callback_inputs_game_engine_run by (rule game_loop_callback_inputs)
qed

theorem C4_pressed_released_disjoint_witness:
  "\<lparr>held = 1, pressed = 1, released = 0\<rparr> \<in> set (callback_inputs (snd
      (game_engine_run demo_clock demo_engine 0
         [Input \<lparr>key = InputKeyUp, type = InputTypePress\<rparr>, Wake 1 1000000,
          Input \<lparr>key = InputKeyUp, type = InputTypeRelease\<rparr>, Wake 3 2000000])))
   \<and> \<lparr>held = 0, pressed = 0, released = 1\<rparr> \<in> set (callback_inputs (snd
      (game_engine_run demo_clock demo_engine 0
         [Input \<lparr>key = InputKeyUp, type = InputTypePress\<rparr>, Wake 1 1000000,
          Input \<lparr>key = InputKeyUp, type = InputTypeRelease\<rparr>, Wake 3 2000000])))
   \<and> pressed \<lparr>held = 1, pressed = 1, released = 0\<rparr> AND
       released \<lparr>held = 1, pressed = 1, released = 0\<rparr> = (0 :: uint32_t)"
proof -
  have m: "\<lparr>held = 1, pressed = 1, released = 0\<rparr> \<in> set (callback_inputs (snd
      (game_engine_run demo_clock demo_engine 0
         [Input \<lparr>key = InputKeyUp, type = InputTypePress\<rparr>, Wake 1 1000000,
          Input \<lparr>key = InputKeyUp, type = InputTypeRelease\<rparr>, Wake 3 2000000])))"
   and m': "\<lparr>held = 0, pressed = 0, released = 1\<rparr> \<in> set (callback_inputs (snd
      (game_engine_run demo_clock demo_engine 0
         [Input \<lparr>key = InputKeyUp, type = InputTypePress\<rparr>, Wake 1 1000000,
          Input \<lparr>key = InputKeyUp, type = InputTypeRelease\<rparr>, Wake 3 2000000])))"
    by (simp_all add: demo_eval input_events_callback_def keys_count_eq keys_eq
        InputKeyUp_def GameKeyUp_def)
  from C4_pressed_released_disjoint
      [of demo_clock 1000000 "run_init demo_engine 0" demo_engine 0
      "[Input \<lparr>key = InputKeyUp, type = InputTypePress\<rparr>, Wake 1 1000000,
          Input \<lparr>key = InputKeyUp, type = InputTypeRelease\<rparr>, Wake 3 2000000]"]
  have "\<forall>i\<in>set (callback_inputs (snd
      (game_engine_run demo_clock demo_engine 0
         [Input \<lparr>key = InputKeyUp, type = InputTypePress\<rparr>, Wake 1 1000000,
          Input \<lparr>key = InputKeyUp, type = InputTypeRelease\<rparr>, Wake 3 2000000]))).
        pressed i AND released i = 0"
    by (rule conjunct2)
  from this m have "pressed \<lparr>held = 1, pressed = 1, released = 0\<rparr> AND
       released \<lparr>held = 1, pressed = 1, released = 0\<rparr> = (0 :: uint32_t)"
    by (rule bspec)
  with m m' show ?thesis by (intro conjI)
qed

section \<open>Stopping the loop\<close>

text \<open>
  Claim C5. Let the loop be blocked after the stimuli \<open>pre\<close>, and let the next wake-up
  carry the Stop flag and no error. If it carries the Update flag too, the frame is
  processed first (surface reset, callback, overlay if configured, commit); then the loop
  exits, the timer is stopped, the surface released and the subscription removed. These
  three calls end the trace whatever stimuli \<open>post\<close> follow: no callback comes after the
  Stop flag was observed.
\<close>

theorem C5_update_then_stop:
  assumes pre: "game_loop clock (run_init e c) pre = (Blocked, st1)"
    and stop: "flags AND GameThreadFlagStop \<noteq> 0"
    and noerr: "flags AND FuriFlagError = 0"
  shows "game_engine_run clock e c (pre @ Wake flags now # post) =
     (Exited,
      trace st1
      @ (if flags AND GameThreadFlagUpdate \<noteq> 0
         then [CanvasReset,
               Callback (run (frame_update clock now st1))
                 \<lparr>held = input_state st1,
                   pressed = input_state st1 AND NOT (input_prev_state st1),
                   released = NOT (input_state st1) AND input_prev_state st1\<rparr>
                 (user_context (settings e))]
              @ (if show_fps (settings e)
                 then [CanvasSetColorXOR, CanvasPrintf (fps (run (frame_update clock now st1)))]
                 else [])
              @ [CanvasCommit]
         else [])
      @ [ClockTimerStop, GuiDirectDrawRelease, PubsubUnsubscribe])"
proof -
  have e: "engine (run st1) = e"
    using engine_game_loop [OF pre] by (simp add: run_init_def)
  have "game_loop clock (run_init e c) (pre @ Wake flags now # post) =
        game_loop clock st1 (Wake flags now # post)"
    using pre by (rule game_loop_Blocked_append)
  also have "\<dots> = (Exited, if flags AND GameThreadFlagUpdate \<noteq> 0
                              then frame_update clock now st1 else st1)"
    using stop noerr by (simp add: Let_def)
  finally show ?thesis
    by (simp add: game_engine_run_def trace_frame_update e)
qed

theorem C5_update_then_stop_witness:
  "game_loop demo_clock (run_init demo_engine 0) [Wake 1 1000000] =
     (Blocked, frame_update demo_clock 1000000 (run_init demo_engine 0))
   \<and> (3 :: uint32_t) AND GameThreadFlagStop \<noteq> 0
   \<and> (3 :: uint32_t) AND FuriFlagError = 0
   \<and> game_engine_run demo_clock demo_engine 0
        ([Wake 1 1000000] @ Wake 3 3000000 # [Wake 1 4000000]) =
       (Exited,
        [GuiDirectDrawAcquire, PubsubSubscribe, ClockTimerStart (Fin 60),
         CanvasReset,
         Callback \<lparr>engine = demo_engine, fps = Fin 64\<rparr>
           \<lparr>held = 0, pressed = 0, released = 0\<rparr> 0,
         CanvasCommit,
         CanvasReset,
         Callback \<lparr>engine = demo_engine, fps = Fin 32\<rparr>
           \<lparr>held = 0, pressed = 0, released = 0\<rparr> 0,
         CanvasCommit,
         ClockTimerStop, GuiDirectDrawRelease, PubsubUnsubscribe])"
proof -
  have h1: "game_loop demo_clock (run_init demo_engine 0) [Wake 1 1000000] =
     (Blocked, frame_update demo_clock 1000000 (run_init demo_engine 0))"
    by (simp add: GameThreadFlagUpdate_def GameThreadFlagStop_def FuriFlagError_def)
  have h2: "(3 :: uint32_t) AND GameThreadFlagStop \<noteq> 0"
    by (simp add: GameThreadFlagStop_def)
  have h3: "(3 :: uint32_t) AND FuriFlagError = 0"
    by (simp add: FuriFlagError_def)
  show ?thesis
    using h1 h2 h3 C5_update_then_stop [OF h1 h2 h3, of 3000000 "[Wake 1 4000000]"]
    by (simp add: demo_eval demo_engine_def demo_settings_def game_engine_settings_init_def
        NULL_def)
qed

section \<open>Construction\<close>

text \<open>
  Claim C8. \<open>game_engine_alloc\<close> fails its check exactly when the settings have no
  callback; with a callback it returns an engine whose settings are the ones passed in.
\<close>

theorem C8_alloc_aborts_iff_no_callback:
  "(game_engine_alloc env s = Inl FuriCheckFailed \<longleftrightarrow> callback s = NULL)
   \<and> (callback s \<noteq> NULL \<longrightarrow>
        (\<exists>e. game_engine_alloc env s = Inr e \<and> settings e = s))"
  by (simp add: game_engine_alloc_def)

theorem C8_alloc_aborts_iff_no_callback_witness:
  "callback demo_settings \<noteq> NULL
   \<and> game_engine_alloc demo_env demo_settings = Inr demo_engine
   \<and> settings demo_engine = demo_settings
   \<and> game_engine_alloc demo_env game_engine_settings_init = Inl FuriCheckFailed"
  using C8_alloc_aborts_iff_no_callback [of demo_env demo_settings]
    C8_alloc_aborts_iff_no_callback [of demo_env game_engine_settings_init]
  by (simp add: demo_settings_def demo_env_def demo_engine_def game_engine_settings_init_def
      NULL_def game_engine_alloc_def)

end
